theory Spec2Isabelle
  imports Main
begin

section \<open>Role-binding handlers of the Kubernetes HTTP API\<close>

text \<open>
  A shallow embedding of \<^verbatim>\<open>api/http/handler/kubernetes/role_bindings.go\<close>: the two
  handlers \<^verbatim>\<open>getAllKubernetesRoleBindings\<close> and \<^verbatim>\<open>deleteRoleBindings\<close>.
  Both are short orchestrations of collaborators whose bodies live in other packages
  (the client provider, the cluster client, the payload decoder, the response helpers).
  The handlers are translated statement by statement; the collaborators are parameters.
\<close>

subsection \<open>Errors\<close>

text \<open>
  Go's \<^verbatim>\<open>error\<close> interface, restricted to the implementations that reach these handlers:
  a plain message (\<^verbatim>\<open>errors.New\<close>), an API status error of the cluster (an HTTP-like code
  and a message), and a \<^verbatim>\<open>*httperror.HandlerError\<close>, which itself implements
  \<^verbatim>\<open>error\<close> and is passed as one at line 32. A \<^verbatim>\<open>HandlerError\<close> is the struct
  \<^verbatim>\<open>{StatusCode int; Message string; Err error}\<close>; its \<^verbatim>\<open>Err\<close> may be nil.
\<close>

datatype error =
    ErrorString string
  | StatusError nat string
  | HandlerErr HandlerError
and HandlerError =
    NewError (StatusCode: nat) (Message: string) (Err: "error option")

text \<open>The constants of \<^verbatim>\<open>net/http\<close> that the helpers use.\<close>

definition StatusOK :: nat where
  "StatusOK = 200"

definition StatusNoContent :: nat where
  "StatusNoContent = 204"

definition StatusBadRequest :: nat where
  "StatusBadRequest = 400"

definition StatusInternalServerError :: nat where
  "StatusInternalServerError = 500"

text \<open>
  Modelled from the spec: the constructors \<^verbatim>\<open>httperror.BadRequest\<close> and
  \<^verbatim>\<open>httperror.InternalServerError\<close> of \<^verbatim>\<open>pkg/libhttp/error\<close>, which is not among the
  sources. Each builds a \<^verbatim>\<open>HandlerError\<close> from a message and a cause; the status is the
  one their names and the handlers' \<^verbatim>\<open>@failure 400\<close> and \<^verbatim>\<open>@failure 500\<close> annotations
  give: a client-side input error and a server-side error.
\<close>

definition BadRequest :: "string \<Rightarrow> error option \<Rightarrow> HandlerError" where
  "BadRequest message err = NewError StatusBadRequest message err"

definition InternalServerError :: "string \<Rightarrow> error option \<Rightarrow> HandlerError" where
  "InternalServerError message err = NewError StatusInternalServerError message err"

text \<open>The two error classes of the spec's taxonomy, read off the status code.\<close>

definition client_side :: "HandlerError \<Rightarrow> bool" where
  "client_side e = (400 \<le> StatusCode e \<and> StatusCode e < 500)"

definition server_side :: "HandlerError \<Rightarrow> bool" where
  "server_side e = (500 \<le> StatusCode e \<and> StatusCode e < 600)"

subsection \<open>The response writer\<close>

text \<open>
  What a handler leaves on its \<^verbatim>\<open>http.ResponseWriter\<close>: the status written, if any, and
  the value encoded into the body, if any. Encoding to JSON bytes is not modelled; the
  body holds the value handed to the encoder.
\<close>

record 'b ResponseWriter =
  w_status :: "nat option"
  w_body :: "'b option"

text \<open>
  Modelled from the spec: \<^verbatim>\<open>response.JSON\<close> and \<^verbatim>\<open>response.Empty\<close> of
  \<^verbatim>\<open>pkg/libhttp/response\<close>, which is not among the sources. \<^verbatim>\<open>JSON\<close> answers with the
  data (the \<^verbatim>\<open>@success 200 {array}\<close> of the list handler); \<^verbatim>\<open>Empty\<close> answers with a
  success status and no body content (the \<^verbatim>\<open>@success 204\<close> of the delete handler, the
  spec's "empty confirmation (no response body content beyond a success indicator)").
  Both return a nil \<^verbatim>\<open>*HandlerError\<close>.
\<close>

definition response_JSON ::
  "'b ResponseWriter \<Rightarrow> 'b \<Rightarrow> 'b ResponseWriter \<times> HandlerError option" where
  "response_JSON w data = (w\<lparr>w_status := Some StatusOK, w_body := Some data\<rparr>, None)"

definition response_Empty ::
  "'b ResponseWriter \<Rightarrow> 'b ResponseWriter \<times> HandlerError option" where
  "response_Empty w = (w\<lparr>w_status := Some StatusNoContent\<rparr>, None)"

subsection \<open>The collaborators\<close>

text \<open>
  \<^verbatim>\<open>models.K8sRoleBindingDeleteRequests\<close>: "a map where the key is the namespace and the
  value is an array of role bindings to delete" (line 52), filled by the JSON decoder at
  line 63. A Go map holds each key once and keeps no order among its keys; the array of
  a namespace keeps the order and the repetitions of its names. The handler never looks
  inside the value.
\<close>

type_synonym K8sRoleBindingDeleteRequests = "string \<rightharpoonup> string list"

text \<open>
  The methods of \<^verbatim>\<open>*cli.KubeClient\<close> that the handlers call, over a cluster state
  \<open>'c\<close>. \<^verbatim>\<open>GetRoleBindings\<close> reads the cluster; \<^verbatim>\<open>DeleteRoleBindings\<close> may change it
  and returns a nil or non-nil \<^verbatim>\<open>error\<close>.
\<close>

record ('c, 'rb) KubeClient =
  GetRoleBindings :: "string \<Rightarrow> 'c \<Rightarrow> error + 'rb list"
  DeleteRoleBindings :: "K8sRoleBindingDeleteRequests \<Rightarrow> 'c \<Rightarrow> error option \<times> 'c"

text \<open>
  The methods of \<^verbatim>\<open>*Handler\<close> that produce a client for a request \<open>'r\<close>: each returns
  either a client or a non-nil \<^verbatim>\<open>*httperror.HandlerError\<close>.
\<close>

record ('r, 'c, 'rb) Handler =
  prepareKubeClient :: "'r \<Rightarrow> HandlerError + ('c, 'rb) KubeClient"
  getProxyKubeClient :: "'r \<Rightarrow> HandlerError + ('c, 'rb) KubeClient"

text \<open>
  What lies outside the handler and can be observed of a run: the cluster, the calls
  made to the client provider and to the client (in order), and the error log.
\<close>

datatype call =
    Call_prepareKubeClient
  | Call_getProxyKubeClient
  | Call_GetRoleBindings string
  | Call_DeleteRoleBindings K8sRoleBindingDeleteRequests

datatype LogEntry =
    LogError (log_err: error) (log_context: string) (log_msg: string)

record 'c world =
  cluster :: 'c
  calls :: "call list"
  logs :: "LogEntry list"

subsection \<open>The handlers\<close>

text \<open>\<^verbatim>\<open>getAllKubernetesRoleBindings\<close>, lines 28 to 42.\<close>

definition getAllKubernetesRoleBindings ::
  "('r, 'c, 'rb) Handler \<Rightarrow> 'rb list ResponseWriter \<Rightarrow> 'r \<Rightarrow> 'c world
    \<Rightarrow> HandlerError option \<times> 'rb list ResponseWriter \<times> 'c world" where
  "getAllKubernetesRoleBindings handler w r s =
     (let s1 = s\<lparr>calls := calls s @ [Call_prepareKubeClient]\<rparr> in
      case prepareKubeClient handler r of
        Inl httpErr \<Rightarrow>
          (Some (InternalServerError ''unable to prepare kube client. Error: ''
                   (Some (HandlerErr httpErr))),
           w,
           s1\<lparr>logs := logs s1 @ [LogError (HandlerErr httpErr)
                  ''GetAllKubernetesRoleBindings'' ''Unable to prepare kube client'']\<rparr>)
      | Inr cli \<Rightarrow>
          (let s2 = s1\<lparr>calls := calls s1 @ [Call_GetRoleBindings '''']\<rparr> in
           case GetRoleBindings cli '''' (cluster s2) of
             Inl err \<Rightarrow>
               (Some (InternalServerError ''unable to fetch rolebindings. Error: '' (Some err)),
                w,
                s2\<lparr>logs := logs s2 @ [LogError err
                       ''GetAllKubernetesRoleBindings'' ''Unable to fetch rolebindings'']\<rparr>)
           | Inr rolebindings \<Rightarrow>
               (case response_JSON w rolebindings of (w', res) \<Rightarrow> (res, w', s2))))"

text \<open>
  \<^verbatim>\<open>deleteRoleBindings\<close>, lines 60 to 77. \<^verbatim>\<open>request.DecodeAndValidateJSONPayload\<close>
  (of \<^verbatim>\<open>pkg/libhttp/request\<close>) is the first parameter: it either fills the payload or
  returns a non-nil error.
\<close>

definition deleteRoleBindings ::
  "('r \<Rightarrow> error + K8sRoleBindingDeleteRequests) \<Rightarrow> ('r, 'c, 'rb) Handler
    \<Rightarrow> 'b ResponseWriter \<Rightarrow> 'r \<Rightarrow> 'c world
    \<Rightarrow> HandlerError option \<times> 'b ResponseWriter \<times> 'c world" where
  "deleteRoleBindings DecodeAndValidateJSONPayload h w r s =
     (case DecodeAndValidateJSONPayload r of
        Inl err \<Rightarrow> (Some (BadRequest ''Invalid request payload'' (Some err)), w, s)
      | Inr payload \<Rightarrow>
          (let s1 = s\<lparr>calls := calls s @ [Call_getProxyKubeClient]\<rparr> in
           case getProxyKubeClient h r of
             Inl handlerErr \<Rightarrow> (Some handlerErr, w, s1)
           | Inr cli \<Rightarrow>
               (case DeleteRoleBindings cli payload (cluster s1) of
                  (res, c') \<Rightarrow>
                    (let s2 = s1\<lparr>cluster := c',
                                  calls := calls s1 @ [Call_DeleteRoleBindings payload]\<rparr> in
                     case res of
                       Some err \<Rightarrow>
                         (Some (InternalServerError ''Failed to delete role bindings'' (Some err)),
                          w, s2)
                     | None \<Rightarrow>
                         (case response_Empty w of (w', res') \<Rightarrow> (res', w', s2))))))"

section \<open>The cluster client, from the specification\<close>

text \<open>
  The bodies of \<^verbatim>\<open>cli.GetRoleBindings\<close> and \<^verbatim>\<open>cli.DeleteRoleBindings\<close> (package
  \<^verbatim>\<open>api/kubernetes/cli\<close>) are not among the sources. This section models them from the
  specification's data model (section 3) and component design (sections 4.2 and 4.3).
\<close>

text \<open>
  Modelled from the spec: a RoleBinding, "a namespace-scoped access-control resource"
  with a name, a namespace and opaque binding-specific attributes; its identity is
  (namespace, name).
\<close>

record RoleBinding =
  rb_name :: string
  rb_namespace :: string
  rb_attributes :: string

definition identity :: "RoleBinding \<Rightarrow> string \<times> string" where
  "identity rb = (rb_namespace rb, rb_name rb)"

text \<open>
  Modelled from the spec: the cluster as this core sees it, the resident bindings (in
  cluster-assigned order) and every per-item delete the cluster has been sent, as
  (namespace, name), oldest first.
\<close>

record Cluster =
  bindings :: "RoleBinding list"
  delete_requests :: "(string \<times> string) list"

text \<open>
  Modelled from the spec: a ClusterClient, "a capability object scoped to one (caller,
  environment) pair": which bindings the caller is authorized to see, the retrieval
  error of a listing if there is one, and the error the cluster reports for one delete
  if there is one (the spec leaves to the client whether deleting an absent binding is
  an error). The batch is a map, so the order in which a loop over it meets the
  namespace keys is not part of the batch: \<open>key_order\<close> is the order in which this
  client's loop enumerates the keys of a given batch (the spec's design notes call it
  the "namespace-map iteration order", "not guaranteed stable by the data model").
\<close>

record ClusterClient =
  authorized :: "RoleBinding \<Rightarrow> bool"
  fetch_failure :: "RoleBinding list \<Rightarrow> error option"
  delete_failure :: "string \<Rightarrow> string \<Rightarrow> RoleBinding list \<Rightarrow> error option"
  key_order :: "K8sRoleBindingDeleteRequests \<Rightarrow> string list"

text \<open>
  Modelled from the spec: \<^verbatim>\<open>listBindings(client, namespaceFilter)\<close> of section 4.2.
  "Empty string means all namespaces visible to this client; a non-empty value restricts
  to that namespace"; the result is "every RoleBinding the client is authorized to see
  within the filter scope"; a retrieval error fails the call with no partial result.
\<close>

definition listBindings :: "ClusterClient \<Rightarrow> string \<Rightarrow> Cluster \<Rightarrow> error + RoleBinding list" where
  "listBindings client namespaceFilter c =
     (case fetch_failure client (bindings c) of
        Some err \<Rightarrow> Inl err
      | None \<Rightarrow>
          Inr (filter (\<lambda>rb. authorized client rb \<and>
                            (namespaceFilter = [] \<or> rb_namespace rb = namespaceFilter))
                 (bindings c)))"

text \<open>
  Modelled from the spec: the bindings of one namespace that are visible to the caller
  ("every RoleBinding the client is authorized to see" in that namespace).
\<close>

definition visible_in :: "ClusterClient \<Rightarrow> Cluster \<Rightarrow> string \<Rightarrow> RoleBinding list" where
  "visible_in client c ns =
     filter (\<lambda>rb. authorized client rb \<and> rb_namespace rb = ns) (bindings c)"

text \<open>
  Modelled from the spec: one delete issued against a namespace (section 4.3). The
  request reaches the cluster; unless the client reports an error the binding of that
  identity is gone afterwards.
\<close>

definition deleteOne :: "ClusterClient \<Rightarrow> string \<Rightarrow> string \<Rightarrow> Cluster \<Rightarrow> error option \<times> Cluster" where
  "deleteOne client ns n c =
     (let c1 = c\<lparr>delete_requests := delete_requests c @ [(ns, n)]\<rparr> in
      case delete_failure client ns n (bindings c) of
        Some err \<Rightarrow> (Some err, c1)
      | None \<Rightarrow> (None, c1\<lparr>bindings := filter (\<lambda>rb. identity rb \<noteq> (ns, n)) (bindings c1)\<rparr>))"

text \<open>
  Modelled from the spec: \<^verbatim>\<open>deleteBatch(client, batch)\<close> of section 4.3. "Iterate the
  batch's namespace keys; for each namespace, iterate its binding-name sequence and
  issue one delete per name against that namespace"; "the first delete failure aborts
  the entire batch and is surfaced as the operation's error"; there is no rollback.
  The keys are met in the client's \<open>key_order\<close>; \<open>names_of\<close> is the lookup of one
  key (no names for a key the batch does not hold).
\<close>

definition names_of :: "K8sRoleBindingDeleteRequests \<Rightarrow> string \<Rightarrow> string list" where
  "names_of batch ns = (case batch ns of None \<Rightarrow> [] | Some names \<Rightarrow> names)"

fun deleteNames :: "ClusterClient \<Rightarrow> string \<Rightarrow> string list \<Rightarrow> Cluster \<Rightarrow> error option \<times> Cluster" where
  "deleteNames client ns [] c = (None, c)"
| "deleteNames client ns (n # names) c =
     (case deleteOne client ns n c of
        (Some err, c') \<Rightarrow> (Some err, c')
      | (None, c') \<Rightarrow> deleteNames client ns names c')"

fun deleteKeys ::
  "ClusterClient \<Rightarrow> K8sRoleBindingDeleteRequests \<Rightarrow> string list \<Rightarrow> Cluster
    \<Rightarrow> error option \<times> Cluster" where
  "deleteKeys client batch [] c = (None, c)"
| "deleteKeys client batch (ns # keys) c =
     (case deleteNames client ns (names_of batch ns) c of
        (Some err, c') \<Rightarrow> (Some err, c')
      | (None, c') \<Rightarrow> deleteKeys client batch keys c')"

definition deleteBatch :: "ClusterClient \<Rightarrow> K8sRoleBindingDeleteRequests \<Rightarrow> Cluster \<Rightarrow> error option \<times> Cluster" where
  "deleteBatch client batch c = deleteKeys client batch (key_order client batch) c"

text \<open>
  Modelled from the spec: the \<^verbatim>\<open>KubeClient\<close> whose two methods are the operations
  above, standing in for the missing package.
\<close>

definition spec_KubeClient :: "ClusterClient \<Rightarrow> (Cluster, RoleBinding) KubeClient" where
  "spec_KubeClient client =
     \<lparr>GetRoleBindings = listBindings client, DeleteRoleBindings = deleteBatch client\<rparr>"

text \<open>
  The batch as the "linear sequence of per-item delete attempts" of the spec's state
  machine: its (namespace, name) pairs in the order the client meets them (keys in
  \<open>key_order\<close>, names in the order of their array), and the fail-fast run over such a
  sequence.
\<close>

definition items_in :: "K8sRoleBindingDeleteRequests \<Rightarrow> string list \<Rightarrow> (string \<times> string) list" where
  "items_in batch keys = concat (map (\<lambda>ns. map (Pair ns) (names_of batch ns)) keys)"

definition items :: "ClusterClient \<Rightarrow> K8sRoleBindingDeleteRequests \<Rightarrow> (string \<times> string) list" where
  "items client batch = items_in batch (key_order client batch)"

fun deleteItems :: "ClusterClient \<Rightarrow> (string \<times> string) list \<Rightarrow> Cluster \<Rightarrow> error option \<times> Cluster" where
  "deleteItems client [] c = (None, c)"
| "deleteItems client ((ns, n) # rest) c =
     (case deleteOne client ns n c of
        (Some err, c') \<Rightarrow> (Some err, c')
      | (None, c') \<Rightarrow> deleteItems client rest c')"

section \<open>Sample environment\<close>

text \<open>
  The example scenario of the specification (section 8): namespace team-a holds
  view-binding, team-b holds admin-binding, and the payload also names an edit-binding
  that does not exist. Requests are represented by their body.
\<close>

definition ex_cluster :: Cluster where
  "ex_cluster =
     \<lparr>bindings =
        [\<lparr>rb_name = ''view-binding'', rb_namespace = ''team-a'', rb_attributes = ''view''\<rparr>,
         \<lparr>rb_name = ''admin-binding'', rb_namespace = ''team-b'', rb_attributes = ''admin''\<rparr>],
      delete_requests = []\<rparr>"

definition ex_world :: "Cluster world" where
  "ex_world = \<lparr>cluster = ex_cluster, calls = [], logs = []\<rparr>"

definition ex_payload :: K8sRoleBindingDeleteRequests where
  "ex_payload =
     [''team-a'' \<mapsto> [''view-binding''], ''team-b'' \<mapsto> [''admin-binding'', ''edit-binding'']]"

text \<open>
  A client that sees everything, reports "not found" for a delete of an absent binding,
  and whose loop meets the sample namespaces in the order team-a, team-b.
\<close>

definition ex_client :: ClusterClient where
  "ex_client =
     \<lparr>authorized = (\<lambda>rb. True),
      fetch_failure = (\<lambda>bs. None),
      delete_failure = (\<lambda>ns n bs.
        if (ns, n) \<in> set (map identity bs) then None
        else Some (StatusError 404 ''rolebinding not found'')),
      key_order = (\<lambda>batch. filter (\<lambda>ns. batch ns \<noteq> None) [''team-a'', ''team-b''])\<rparr>"

text \<open>The same client when the cluster does not answer a listing.\<close>

definition ex_client_down :: ClusterClient where
  "ex_client_down = ex_client\<lparr>fetch_failure := (\<lambda>bs. Some (ErrorString ''connection refused''))\<rparr>"

text \<open>
  Sample batches: one naming an existing binding, one naming a missing binding, one
  with a repeated name and an empty array, one whose second item is missing.
\<close>

definition ex_present :: K8sRoleBindingDeleteRequests where
  "ex_present = [''team-a'' \<mapsto> [''view-binding'']]"

definition ex_absent :: K8sRoleBindingDeleteRequests where
  "ex_absent = [''team-b'' \<mapsto> [''edit-binding'']]"

definition ex_repeated :: K8sRoleBindingDeleteRequests where
  "ex_repeated = [''team-b'' \<mapsto> [''admin-binding'', ''admin-binding''], ''team-a'' \<mapsto> []]"

definition ex_stops :: K8sRoleBindingDeleteRequests where
  "ex_stops =
     [''team-a'' \<mapsto> [''view-binding''], ''team-b'' \<mapsto> [''edit-binding'', ''admin-binding'']]"

text \<open>
  The entries of a request body in the order they are written in it: the missing
  edit-binding of team-b first, the existing view-binding of team-a second. The decoder
  turns the entries into the map.
\<close>

definition ex_written_b_then_a :: "(string \<times> string list) list" where
  "ex_written_b_then_a = [(''team-b'', [''edit-binding'']), (''team-a'', [''view-binding''])]"

text \<open>
  A decoder that accepts the bodies \<^verbatim>\<open>batch\<close>, \<^verbatim>\<open>present\<close>, \<^verbatim>\<open>absent\<close>,
  \<^verbatim>\<open>repeated\<close>, \<^verbatim>\<open>stops\<close> and \<^verbatim>\<open>b-then-a\<close> as the batches above, and rejects
  the rest.
\<close>

definition ex_decode :: "string \<Rightarrow> error + K8sRoleBindingDeleteRequests" where
  "ex_decode body =
     (if body = ''batch'' then Inr ex_payload
      else if body = ''present'' then Inr ex_present
      else if body = ''absent'' then Inr ex_absent
      else if body = ''repeated'' then Inr ex_repeated
      else if body = ''stops'' then Inr ex_stops
      else if body = ''b-then-a'' then Inr (map_of ex_written_b_then_a)
      else Inl (ErrorString ''missing deletion request list in payload''))"

definition ex_handler :: "(string, Cluster, RoleBinding) Handler" where
  "ex_handler =
     \<lparr>prepareKubeClient = (\<lambda>r. Inr (spec_KubeClient ex_client)),
      getProxyKubeClient = (\<lambda>r. Inr (spec_KubeClient ex_client))\<rparr>"

definition ex_handler_down :: "(string, Cluster, RoleBinding) Handler" where
  "ex_handler_down =
     \<lparr>prepareKubeClient = (\<lambda>r. Inr (spec_KubeClient ex_client_down)),
      getProxyKubeClient = (\<lambda>r. Inr (spec_KubeClient ex_client_down))\<rparr>"

text \<open>A caller whose client is authorized to see namespace team-a only.\<close>

definition ex_client_team_a :: ClusterClient where
  "ex_client_team_a = ex_client\<lparr>authorized := (\<lambda>rb. rb_namespace rb = ''team-a'')\<rparr>"

definition ex_handler_team_a :: "(string, Cluster, RoleBinding) Handler" where
  "ex_handler_team_a =
     \<lparr>prepareKubeClient = (\<lambda>r. Inr (spec_KubeClient ex_client_team_a)),
      getProxyKubeClient = (\<lambda>r. Inr (spec_KubeClient ex_client_team_a))\<rparr>"

text \<open>A provider that cannot produce a client and says why with a status of its own.\<close>

definition ex_forbidden :: HandlerError where
  "ex_forbidden = NewError 403 ''Permission denied to access environment'' None"

definition ex_handler_unavailable :: "(string, Cluster, RoleBinding) Handler" where
  "ex_handler_unavailable =
     \<lparr>prepareKubeClient = (\<lambda>r. Inl ex_forbidden),
      getProxyKubeClient = (\<lambda>r. Inl ex_forbidden)\<rparr>"

definition ex_w :: "'b ResponseWriter" where
  "ex_w = \<lparr>w_status = None, w_body = None\<rparr>"

section \<open>Properties of the handlers\<close>

text \<open>
  C2. A bulk-delete request whose payload fails decoding or validation is answered with
  the bad-request error wrapping the decoder's error. It is a client-side error (400)
  and not a server-side one. The writer and the world come back as they were: the
  client provider is not called, no client method is called, the cluster is unchanged.
  The answer does not depend on the handler's client provider at all.
\<close>

theorem invalid_payload_rejected_before_cluster:
  assumes "DecodeAndValidateJSONPayload r = Inl err"
  shows "deleteRoleBindings DecodeAndValidateJSONPayload h w r s =
           (Some (BadRequest ''Invalid request payload'' (Some err)), w, s)
         \<and> calls (snd (snd (deleteRoleBindings DecodeAndValidateJSONPayload h w r s))) = calls s
         \<and> cluster (snd (snd (deleteRoleBindings DecodeAndValidateJSONPayload h w r s))) =
             cluster s
         \<and> StatusCode (BadRequest ''Invalid request payload'' (Some err)) = 400
         \<and> client_side (BadRequest ''Invalid request payload'' (Some err))
         \<and> \<not> server_side (BadRequest ''Invalid request payload'' (Some err))"
  using assms
  by (simp add: deleteRoleBindings_def BadRequest_def StatusBadRequest_def
      client_side_def server_side_def)

theorem invalid_payload_rejected_before_cluster_witness:
  "ex_decode ''{}'' = Inl (ErrorString ''missing deletion request list in payload'')
   \<and> deleteRoleBindings ex_decode ex_handler (ex_w :: unit ResponseWriter) ''{}'' ex_world =
       (Some (NewError 400 ''Invalid request payload''
                (Some (ErrorString ''missing deletion request list in payload''))),
        ex_w, ex_world)"
proof -
  have rejected: "ex_decode ''{}'' = Inl (ErrorString ''missing deletion request list in payload'')"
    by (simp add: ex_decode_def)
  from invalid_payload_rejected_before_cluster
         [where DecodeAndValidateJSONPayload = ex_decode and h = ex_handler
            and w = "ex_w :: unit ResponseWriter" and s = ex_world, OF rejected]
  show ?thesis
    using rejected by (simp add: BadRequest_def StatusBadRequest_def)
qed

text \<open>
  C3, as stated, fails for the bulk-delete operation. With a payload that passes
  validation and a provider that fails with a 403 of its own, the handler returns that
  403, which is not a server-side error; with a payload that fails validation the
  provider is never asked and the answer is the 400 of the payload check.
\<close>

theorem client_unavailable_delete_counterexample:
  "getProxyKubeClient ex_handler_unavailable ''batch'' = Inl ex_forbidden
   \<and> ex_decode ''batch'' = Inr ex_payload
   \<and> fst (deleteRoleBindings ex_decode ex_handler_unavailable
            (ex_w :: unit ResponseWriter) ''batch'' ex_world) = Some ex_forbidden
   \<and> StatusCode ex_forbidden = 403
   \<and> \<not> server_side ex_forbidden
   \<and> fst (deleteRoleBindings ex_decode ex_handler_unavailable
            (ex_w :: unit ResponseWriter) ''{}'' ex_world) =
       Some (NewError 400 ''Invalid request payload''
               (Some (ErrorString ''missing deletion request list in payload'')))"
  by (simp add: deleteRoleBindings_def ex_handler_unavailable_def ex_decode_def
      ex_forbidden_def server_side_def BadRequest_def StatusBadRequest_def)

text \<open>
  C3, amended. When the provider returns an error instead of a client: the list
  operation returns a 500 (server-side) error that wraps the provider's error; the
  bulk-delete operation, for a payload that passes validation, returns the provider's
  own error unchanged, whatever its status. In both, the only call made is the one to
  the provider: no client method is called and the cluster is unchanged.
\<close>

theorem client_unavailable_no_cluster_interaction:
  assumes "prepareKubeClient h r1 = Inl e1"
    and "getProxyKubeClient h r2 = Inl e2"
    and "DecodeAndValidateJSONPayload r2 = Inr payload"
  shows "getAllKubernetesRoleBindings h w1 r1 s =
           (Some (InternalServerError ''unable to prepare kube client. Error: ''
                    (Some (HandlerErr e1))),
            w1,
            s\<lparr>calls := calls s @ [Call_prepareKubeClient],
              logs := logs s @ [LogError (HandlerErr e1)
                ''GetAllKubernetesRoleBindings'' ''Unable to prepare kube client'']\<rparr>)
         \<and> server_side (InternalServerError ''unable to prepare kube client. Error: ''
                          (Some (HandlerErr e1)))
         \<and> cluster (snd (snd (getAllKubernetesRoleBindings h w1 r1 s))) = cluster s
         \<and> deleteRoleBindings DecodeAndValidateJSONPayload h w2 r2 s =
             (Some e2, w2, s\<lparr>calls := calls s @ [Call_getProxyKubeClient]\<rparr>)
         \<and> cluster (snd (snd (deleteRoleBindings DecodeAndValidateJSONPayload h w2 r2 s))) =
             cluster s"
  using assms
  by (simp add: getAllKubernetesRoleBindings_def deleteRoleBindings_def Let_def
      InternalServerError_def StatusInternalServerError_def server_side_def)

theorem client_unavailable_no_cluster_interaction_witness:
  "getAllKubernetesRoleBindings ex_handler_unavailable ex_w ''batch'' ex_world =
     (Some (NewError 500 ''unable to prepare kube client. Error: ''
              (Some (HandlerErr ex_forbidden))),
      ex_w,
      ex_world\<lparr>calls := [Call_prepareKubeClient],
        logs := [LogError (HandlerErr ex_forbidden)
          ''GetAllKubernetesRoleBindings'' ''Unable to prepare kube client'']\<rparr>)
   \<and> deleteRoleBindings ex_decode ex_handler_unavailable
        (ex_w :: unit ResponseWriter) ''batch'' ex_world =
       (Some ex_forbidden, ex_w, ex_world\<lparr>calls := [Call_getProxyKubeClient]\<rparr>)"
proof -
  have p1: "prepareKubeClient ex_handler_unavailable ''batch'' = Inl ex_forbidden"
    by (simp add: ex_handler_unavailable_def)
  have p2: "getProxyKubeClient ex_handler_unavailable ''batch'' = Inl ex_forbidden"
    by (simp add: ex_handler_unavailable_def)
  have p3: "ex_decode ''batch'' = Inr ex_payload"
    by (simp add: ex_decode_def)
  from client_unavailable_no_cluster_interaction
         [where h = ex_handler_unavailable and DecodeAndValidateJSONPayload = ex_decode
            and ?w1.0 = ex_w and ?w2.0 = "ex_w :: unit ResponseWriter" and s = ex_world,
          OF p1 p2 p3]
  show ?thesis
    by (simp add: InternalServerError_def StatusInternalServerError_def ex_world_def)
qed

text \<open>
  C4. When the payload is accepted, a client is obtained and the client's batch delete
  reports no error, the handler returns no error and answers through
  \<^verbatim>\<open>response.Empty\<close>: status 204 and nothing written into the body. The writer is
  the only thing the answer is built from: no item of the batch reaches it.
\<close>

theorem delete_success_empty_confirmation:
  assumes "DecodeAndValidateJSONPayload r = Inr payload"
    and "getProxyKubeClient h r = Inr cli"
    and "DeleteRoleBindings cli payload (cluster s) = (None, c')"
  shows "deleteRoleBindings DecodeAndValidateJSONPayload h w r s =
           (None, w\<lparr>w_status := Some 204\<rparr>,
            s\<lparr>cluster := c',
              calls := calls s @ [Call_getProxyKubeClient, Call_DeleteRoleBindings payload]\<rparr>)
         \<and> w_body (fst (snd (deleteRoleBindings DecodeAndValidateJSONPayload h w r s))) =
             w_body w"
  using assms
  by (simp add: deleteRoleBindings_def Let_def response_Empty_def StatusNoContent_def)

theorem delete_success_empty_confirmation_witness:
  "deleteRoleBindings ex_decode ex_handler (ex_w :: unit ResponseWriter) ''present'' ex_world =
     (None, \<lparr>w_status = Some 204, w_body = None\<rparr>,
      \<lparr>cluster =
         \<lparr>bindings = [\<lparr>rb_name = ''admin-binding'', rb_namespace = ''team-b'',
                        rb_attributes = ''admin''\<rparr>],
          delete_requests = [(''team-a'', ''view-binding'')]\<rparr>,
       calls = [Call_getProxyKubeClient,
                Call_DeleteRoleBindings ex_present],
       logs = []\<rparr>)"
proof -
  have p1: "ex_decode ''present'' = Inr ex_present"
    by (simp add: ex_decode_def)
  have p2: "getProxyKubeClient ex_handler ''present'' = Inr (spec_KubeClient ex_client)"
    by (simp add: ex_handler_def)
  have p3: "DeleteRoleBindings (spec_KubeClient ex_client) ex_present (cluster ex_world) =
            (None, \<lparr>bindings = [\<lparr>rb_name = ''admin-binding'', rb_namespace = ''team-b'',
                                  rb_attributes = ''admin''\<rparr>],
                    delete_requests = [(''team-a'', ''view-binding'')]\<rparr>)"
    by (simp add: spec_KubeClient_def deleteBatch_def names_of_def deleteOne_def
        ex_client_def ex_present_def ex_world_def ex_cluster_def identity_def Let_def)
  from delete_success_empty_confirmation
         [where DecodeAndValidateJSONPayload = ex_decode and h = ex_handler
            and w = "ex_w :: unit ResponseWriter" and s = ex_world, OF p1 p2 p3]
  show ?thesis
    by (simp add: ex_w_def ex_world_def)
qed

text \<open>
  C6. Once a client has been obtained, a list call whose retrieval fails returns the
  500 (server-side) error wrapping the retrieval error and leaves the writer as it was:
  nothing of a listing, partial or whole, is written. A list call whose retrieval
  succeeds returns no error and writes the whole list the client returned. So a call
  yields either the full list or an error, never both.
\<close>

theorem list_fetch_failure_atomic:
  assumes "prepareKubeClient h r = Inr cli"
  shows "(\<forall>err. GetRoleBindings cli '''' (cluster s) = Inl err \<longrightarrow>
            getAllKubernetesRoleBindings h w r s =
              (Some (InternalServerError ''unable to fetch rolebindings. Error: '' (Some err)),
               w,
               s\<lparr>calls := calls s @ [Call_prepareKubeClient, Call_GetRoleBindings ''''],
                 logs := logs s @ [LogError err
                   ''GetAllKubernetesRoleBindings'' ''Unable to fetch rolebindings'']\<rparr>)
            \<and> StatusCode (InternalServerError ''unable to fetch rolebindings. Error: ''
                             (Some err)) = 500
            \<and> server_side (InternalServerError ''unable to fetch rolebindings. Error: ''
                             (Some err)))
         \<and> (\<forall>rolebindings. GetRoleBindings cli '''' (cluster s) = Inr rolebindings \<longrightarrow>
              getAllKubernetesRoleBindings h w r s =
                (None, w\<lparr>w_status := Some 200, w_body := Some rolebindings\<rparr>,
                 s\<lparr>calls := calls s @ [Call_prepareKubeClient, Call_GetRoleBindings '''']\<rparr>))"
  using assms
  by (simp add: getAllKubernetesRoleBindings_def Let_def InternalServerError_def
      StatusInternalServerError_def server_side_def response_JSON_def StatusOK_def)

theorem list_fetch_failure_atomic_witness:
  "getAllKubernetesRoleBindings ex_handler_down ex_w ''list'' ex_world =
     (Some (NewError 500 ''unable to fetch rolebindings. Error: ''
              (Some (ErrorString ''connection refused''))),
      \<lparr>w_status = None, w_body = None\<rparr>,
      \<lparr>cluster = ex_cluster,
       calls = [Call_prepareKubeClient, Call_GetRoleBindings ''''],
       logs = [LogError (ErrorString ''connection refused'')
                 ''GetAllKubernetesRoleBindings'' ''Unable to fetch rolebindings'']\<rparr>)
   \<and> getAllKubernetesRoleBindings ex_handler ex_w ''list'' ex_world =
       (None, \<lparr>w_status = Some 200, w_body = Some (bindings ex_cluster)\<rparr>,
        \<lparr>cluster = ex_cluster,
         calls = [Call_prepareKubeClient, Call_GetRoleBindings ''''],
         logs = []\<rparr>)"
proof -
  have down: "prepareKubeClient ex_handler_down ''list'' = Inr (spec_KubeClient ex_client_down)"
    by (simp add: ex_handler_down_def)
  have up: "prepareKubeClient ex_handler ''list'' = Inr (spec_KubeClient ex_client)"
    by (simp add: ex_handler_def)
  have fails: "GetRoleBindings (spec_KubeClient ex_client_down) '''' (cluster ex_world) =
                 Inl (ErrorString ''connection refused'')"
    by (simp add: spec_KubeClient_def listBindings_def ex_client_down_def ex_client_def)
  have lists: "GetRoleBindings (spec_KubeClient ex_client) '''' (cluster ex_world) =
                 Inr (bindings ex_cluster)"
    by (simp add: spec_KubeClient_def listBindings_def ex_client_def ex_world_def)
  from list_fetch_failure_atomic [where h = ex_handler_down and w = ex_w and s = ex_world, OF down]
    list_fetch_failure_atomic [where h = ex_handler and w = ex_w and s = ex_world, OF up]
    fails lists
  show ?thesis
    by (simp add: InternalServerError_def StatusInternalServerError_def ex_w_def ex_world_def)
qed

text \<open>
  C8. The two handlers report a failure to obtain a client differently. The list handler
  builds a new 500 error whose cause is the provider's error, and logs it. The
  bulk-delete handler returns the provider's error itself: its status and message are
  the provider's, and nothing is logged.
\<close>

theorem client_failure_wrapped_by_list_passed_on_by_delete:
  assumes "prepareKubeClient h r1 = Inl e1"
    and "DecodeAndValidateJSONPayload r2 = Inr payload"
    and "getProxyKubeClient h r2 = Inl e2"
  shows "fst (getAllKubernetesRoleBindings h w1 r1 s1) =
           Some (NewError 500 ''unable to prepare kube client. Error: ''
                   (Some (HandlerErr e1)))
         \<and> logs (snd (snd (getAllKubernetesRoleBindings h w1 r1 s1))) =
             logs s1 @ [LogError (HandlerErr e1)
               ''GetAllKubernetesRoleBindings'' ''Unable to prepare kube client'']
         \<and> fst (deleteRoleBindings DecodeAndValidateJSONPayload h w2 r2 s2) = Some e2
         \<and> logs (snd (snd (deleteRoleBindings DecodeAndValidateJSONPayload h w2 r2 s2))) =
             logs s2"
  using assms
  by (simp add: getAllKubernetesRoleBindings_def deleteRoleBindings_def Let_def
      InternalServerError_def StatusInternalServerError_def)

theorem client_failure_wrapped_by_list_passed_on_by_delete_witness:
  "map_option StatusCode
     (fst (getAllKubernetesRoleBindings ex_handler_unavailable ex_w ''list'' ex_world)) =
     Some 500
   \<and> map_option StatusCode
       (fst (deleteRoleBindings ex_decode ex_handler_unavailable
              (ex_w :: unit ResponseWriter) ''present'' ex_world)) = Some 403
   \<and> map_option Message
       (fst (deleteRoleBindings ex_decode ex_handler_unavailable
              (ex_w :: unit ResponseWriter) ''present'' ex_world)) =
       Some ''Permission denied to access environment''"
proof -
  have p1: "prepareKubeClient ex_handler_unavailable ''list'' = Inl ex_forbidden"
    by (simp add: ex_handler_unavailable_def)
  have p2: "ex_decode ''present'' = Inr ex_present"
    by (simp add: ex_decode_def)
  have p3: "getProxyKubeClient ex_handler_unavailable ''present'' = Inl ex_forbidden"
    by (simp add: ex_handler_unavailable_def)
  from client_failure_wrapped_by_list_passed_on_by_delete
         [where h = ex_handler_unavailable and DecodeAndValidateJSONPayload = ex_decode
            and ?w1.0 = ex_w and ?w2.0 = "ex_w :: unit ResponseWriter"
            and ?s1.0 = ex_world and ?s2.0 = ex_world, OF p1 p2 p3]
  show ?thesis
    by (simp add: ex_forbidden_def)
qed

text \<open>
  C9. Whatever error the client's batch delete returns, the bulk-delete handler answers
  with one 500 error that carries it as its cause. The status does not depend on the
  error: a "not found" (404) or a "forbidden" (403) of the cluster is reported as 500
  like any other.
\<close>

theorem delete_error_always_internal_server_error:
  assumes "DecodeAndValidateJSONPayload r = Inr payload"
    and "getProxyKubeClient h r = Inr cli"
    and "DeleteRoleBindings cli payload (cluster s) = (Some err, c')"
  shows "deleteRoleBindings DecodeAndValidateJSONPayload h w r s =
           (Some (NewError 500 ''Failed to delete role bindings'' (Some err)), w,
            s\<lparr>cluster := c',
              calls := calls s @ [Call_getProxyKubeClient, Call_DeleteRoleBindings payload]\<rparr>)
         \<and> server_side (NewError 500 ''Failed to delete role bindings'' (Some err))"
  using assms
  by (simp add: deleteRoleBindings_def Let_def InternalServerError_def
      StatusInternalServerError_def server_side_def)

theorem delete_error_always_internal_server_error_witness:
  "deleteRoleBindings ex_decode ex_handler (ex_w :: unit ResponseWriter) ''absent'' ex_world =
     (Some (NewError 500 ''Failed to delete role bindings''
              (Some (StatusError 404 ''rolebinding not found''))),
      ex_w,
      \<lparr>cluster = ex_cluster\<lparr>delete_requests := [(''team-b'', ''edit-binding'')]\<rparr>,
       calls = [Call_getProxyKubeClient,
                Call_DeleteRoleBindings ex_absent],
       logs = []\<rparr>)"
proof -
  have p1: "ex_decode ''absent'' = Inr ex_absent"
    by (simp add: ex_decode_def)
  have p2: "getProxyKubeClient ex_handler ''absent'' = Inr (spec_KubeClient ex_client)"
    by (simp add: ex_handler_def)
  have p3: "DeleteRoleBindings (spec_KubeClient ex_client) ex_absent (cluster ex_world) =
            (Some (StatusError 404 ''rolebinding not found''),
             ex_cluster\<lparr>delete_requests := [(''team-b'', ''edit-binding'')]\<rparr>)"
    by (simp add: spec_KubeClient_def deleteBatch_def names_of_def deleteOne_def
        ex_client_def ex_absent_def ex_world_def ex_cluster_def identity_def Let_def)
  from delete_error_always_internal_server_error
         [where DecodeAndValidateJSONPayload = ex_decode and h = ex_handler
            and w = "ex_w :: unit ResponseWriter" and s = ex_world, OF p1 p2 p3]
  show ?thesis
    by (simp add: ex_world_def)
qed

text \<open>
  C10. For an accepted request with a client, the handler calls the client's batch
  delete once, with the payload exactly as the decoder returned it (the same map: the
  same namespaces, each with its array of names as decoded, repeated names kept), on
  the cluster as it stood; the resulting cluster is the one that call leaves, and the
  handler reports an error exactly when that call does.
\<close>

theorem delete_passes_payload_unchanged:
  assumes "DecodeAndValidateJSONPayload r = Inr payload"
    and "getProxyKubeClient h r = Inr cli"
  shows "calls (snd (snd (deleteRoleBindings DecodeAndValidateJSONPayload h w r s))) =
           calls s @ [Call_getProxyKubeClient, Call_DeleteRoleBindings payload]
         \<and> cluster (snd (snd (deleteRoleBindings DecodeAndValidateJSONPayload h w r s))) =
             snd (DeleteRoleBindings cli payload (cluster s))
         \<and> (fst (deleteRoleBindings DecodeAndValidateJSONPayload h w r s) = None) =
             (fst (DeleteRoleBindings cli payload (cluster s)) = None)"
  using assms
  by (simp add: deleteRoleBindings_def Let_def response_Empty_def
      split: prod.splits option.splits)

theorem delete_passes_payload_unchanged_witness:
  "calls (snd (snd (deleteRoleBindings ex_decode ex_handler
                      (ex_w :: unit ResponseWriter) ''repeated'' ex_world))) =
     [Call_getProxyKubeClient, Call_DeleteRoleBindings ex_repeated]
   \<and> ex_repeated ''team-b'' = Some [''admin-binding'', ''admin-binding'']
   \<and> ex_repeated ''team-a'' = Some []"
proof -
  have p1: "ex_decode ''repeated'' = Inr ex_repeated"
    by (simp add: ex_decode_def)
  have p2: "getProxyKubeClient ex_handler ''repeated'' = Inr (spec_KubeClient ex_client)"
    by (simp add: ex_handler_def)
  from delete_passes_payload_unchanged
         [where DecodeAndValidateJSONPayload = ex_decode and h = ex_handler
            and w = "ex_w :: unit ResponseWriter" and s = ex_world, OF p1 p2]
  show ?thesis
    by (simp add: ex_world_def ex_repeated_def)
qed

section \<open>Properties that rest on the client of the specification\<close>

subsection \<open>The batch as a sequence of items\<close>

lemma deleteNames_as_items:
  "deleteNames client ns names c = deleteItems client (map (Pair ns) names) c"
  by (induction names arbitrary: c) (auto split: prod.splits option.splits)

lemma deleteItems_append:
  "deleteItems client (xs @ ys) c =
     (case deleteItems client xs c of
        (Some err, c') \<Rightarrow> (Some err, c')
      | (None, c') \<Rightarrow> deleteItems client ys c')"
proof (induction xs arbitrary: c)
  case Nil
  show ?case by simp
next
  case (Cons x xs)
  obtain ns n where x: "x = (ns, n)" by (cases x)
  show ?case
    by (cases "deleteOne client ns n c") (auto simp: x Cons.IH split: option.splits)
qed

lemma deleteKeys_as_items:
  "deleteKeys client batch keys c = deleteItems client (items_in batch keys) c"
proof (induction keys arbitrary: c)
  case Nil
  show ?case by (simp add: items_in_def)
next
  case (Cons ns keys)
  have split_items:
    "items_in batch (ns # keys) = map (Pair ns) (names_of batch ns) @ items_in batch keys"
    by (simp add: items_in_def)
  show ?case
    unfolding split_items deleteItems_append
    by (simp add: deleteNames_as_items Cons.IH split: prod.splits option.splits)
qed

lemma deleteBatch_as_items:
  "deleteBatch client batch c = deleteItems client (items client batch) c"
  by (simp add: deleteBatch_def items_def deleteKeys_as_items)

lemma deleteOne_success:
  assumes "deleteOne client ns n c = (None, c')"
  shows "delete_requests c' = delete_requests c @ [(ns, n)]
         \<and> bindings c' = filter (\<lambda>rb. identity rb \<noteq> (ns, n)) (bindings c)"
  using assms by (auto simp: deleteOne_def Let_def split: option.splits)

lemma deleteItems_success:
  assumes "deleteItems client xs c = (None, c1)"
  shows "delete_requests c1 = delete_requests c @ xs
         \<and> bindings c1 = filter (\<lambda>rb. identity rb \<notin> set xs) (bindings c)"
  using assms
proof (induction xs arbitrary: c)
  case Nil
  then show ?case by simp
next
  case (Cons x xs)
  obtain ns n where x: "x = (ns, n)" by (cases x)
  from Cons.prems obtain c' where
    one: "deleteOne client ns n c = (None, c')" and
    rest: "deleteItems client xs c' = (None, c1)"
    by (auto simp: x split: prod.splits option.splits)
  from deleteOne_success [OF one] Cons.IH [OF rest]
  show ?case
    by (auto simp: x intro: filter_cong)
qed

lemma deleteItems_failure_has_first:
  assumes "deleteItems client xs c = (Some err, c')"
  shows "\<exists>before ns n later c1.
           xs = before @ (ns, n) # later
           \<and> deleteItems client before c = (None, c1)
           \<and> delete_failure client ns n (bindings c1) = Some err"
  using assms
proof (induction xs arbitrary: c)
  case Nil
  then show ?case by simp
next
  case (Cons x xs)
  obtain ns n where x: "x = (ns, n)" by (cases x)
  show ?case
  proof (cases "delete_failure client ns n (bindings c)")
    case (Some e)
    with Cons.prems have "e = err"
      by (simp add: x deleteOne_def Let_def)
    with Some have "x # xs = [] @ (ns, n) # xs
        \<and> deleteItems client [] c = (None, c)
        \<and> delete_failure client ns n (bindings c) = Some err"
      by (simp add: x)
    then show ?thesis by blast
  next
    case None
    then obtain c2 where one: "deleteOne client ns n c = (None, c2)"
      by (simp add: deleteOne_def Let_def)
    with Cons.prems have "deleteItems client xs c2 = (Some err, c')"
      by (simp add: x)
    from Cons.IH [OF this] obtain before ns' n' later c1 where
      "xs = before @ (ns', n') # later"
      "deleteItems client before c2 = (None, c1)"
      "delete_failure client ns' n' (bindings c1) = Some err"
      by blast
    with one have "x # xs = (x # before) @ (ns', n') # later
        \<and> deleteItems client (x # before) c = (None, c1)
        \<and> delete_failure client ns' n' (bindings c1) = Some err"
      by (simp add: x)
    then show ?thesis by blast
  qed
qed

subsection \<open>Fail-fast deletion\<close>

text \<open>
  C1, as stated, fails: the stop point does not follow payload order. The decoded batch
  is a map, so the order in which the request body lists its namespaces is lost (the
  body's entries and their reversal decode to the same batch). In the sample request
  the body lists the missing edit-binding of team-b first and the view-binding of
  team-a second. The client meets team-a first: the delete of view-binding, an item
  after the failing one in payload order, is sent and takes effect, and only then does
  the delete of edit-binding fail.
\<close>

theorem payload_order_stop_counterexample:
  "ex_decode ''b-then-a'' = Inr (map_of ex_written_b_then_a)
   \<and> ex_written_b_then_a =
       [(''team-b'', [''edit-binding'']), (''team-a'', [''view-binding''])]
   \<and> map_of ex_written_b_then_a = map_of (rev ex_written_b_then_a)
   \<and> fst (deleteRoleBindings ex_decode ex_handler
            (ex_w :: unit ResponseWriter) ''b-then-a'' ex_world) =
       Some (NewError 500 ''Failed to delete role bindings''
               (Some (StatusError 404 ''rolebinding not found'')))
   \<and> cluster (snd (snd (deleteRoleBindings ex_decode ex_handler
                            (ex_w :: unit ResponseWriter) ''b-then-a'' ex_world))) =
       \<lparr>bindings = [\<lparr>rb_name = ''admin-binding'', rb_namespace = ''team-b'',
                      rb_attributes = ''admin''\<rparr>],
        delete_requests = [(''team-a'', ''view-binding''), (''team-b'', ''edit-binding'')]\<rparr>"
proof -
  have same: "map_of ex_written_b_then_a = map_of (rev ex_written_b_then_a)"
    by (rule ext) (simp add: ex_written_b_then_a_def)
  have run: "deleteBatch ex_client (map_of ex_written_b_then_a) ex_cluster =
       (Some (StatusError 404 ''rolebinding not found''),
        \<lparr>bindings = [\<lparr>rb_name = ''admin-binding'', rb_namespace = ''team-b'',
                       rb_attributes = ''admin''\<rparr>],
         delete_requests = [(''team-a'', ''view-binding''), (''team-b'', ''edit-binding'')]\<rparr>)"
    by (simp add: deleteBatch_def names_of_def deleteOne_def ex_client_def
        ex_written_b_then_a_def ex_cluster_def identity_def Let_def)
  have decoded: "ex_decode ''b-then-a'' = Inr (map_of ex_written_b_then_a)"
    by (simp add: ex_decode_def)
  have answer: "deleteRoleBindings ex_decode ex_handler (ex_w :: unit ResponseWriter)
                  ''b-then-a'' ex_world =
       (Some (NewError 500 ''Failed to delete role bindings''
                (Some (StatusError 404 ''rolebinding not found''))),
        ex_w,
        ex_world\<lparr>cluster :=
            \<lparr>bindings = [\<lparr>rb_name = ''admin-binding'', rb_namespace = ''team-b'',
                           rb_attributes = ''admin''\<rparr>],
             delete_requests = [(''team-a'', ''view-binding''), (''team-b'', ''edit-binding'')]\<rparr>,
          calls := calls ex_world @
            [Call_getProxyKubeClient, Call_DeleteRoleBindings (map_of ex_written_b_then_a)]\<rparr>)"
    using run
    by (simp add: deleteRoleBindings_def decoded ex_handler_def spec_KubeClient_def Let_def
        InternalServerError_def StatusInternalServerError_def ex_world_def)
  have written: "ex_written_b_then_a =
       [(''team-b'', [''edit-binding'']), (''team-a'', [''view-binding''])]"
    by (simp add: ex_written_b_then_a_def)
  from decoded written same answer show ?thesis
    by simp
qed

text \<open>
  C1, amended. Take the batch as its (namespace, name) items in the order in which the
  client meets them: the namespace keys in the order its loop enumerates the map,
  whatever that order is, and the names of a namespace in the order of their array. Let
  one item be the first whose delete fails: the deletes of the items before it succeed,
  reaching a cluster \<open>c1\<close>, and its own delete is refused there with \<open>err\<close>. Then
  the handler returns the single 500 error whose cause is \<open>err\<close> and writes nothing
  (no per-item list); the deletes sent to the cluster are those of the items before it
  and its own, none of an item after it in that order; and the bindings left are the
  initial ones without the items deleted before the failure: nothing is rolled back.
\<close>

theorem first_delete_failure_aborts_batch:
  assumes "DecodeAndValidateJSONPayload r = Inr batch"
    and "getProxyKubeClient h r = Inr (spec_KubeClient client)"
    and "items client batch = before @ (ns, n) # later"
    and "deleteItems client before (cluster s) = (None, c1)"
    and "delete_failure client ns n (bindings c1) = Some err"
  shows "deleteRoleBindings DecodeAndValidateJSONPayload h w r s =
           (Some (InternalServerError ''Failed to delete role bindings'' (Some err)), w,
            s\<lparr>cluster := c1\<lparr>delete_requests := delete_requests c1 @ [(ns, n)]\<rparr>,
              calls := calls s @ [Call_getProxyKubeClient, Call_DeleteRoleBindings batch]\<rparr>)
         \<and> delete_requests c1 @ [(ns, n)] =
             delete_requests (cluster s) @ before @ [(ns, n)]
         \<and> bindings c1 =
             filter (\<lambda>rb. identity rb \<notin> set before) (bindings (cluster s))"
proof -
  have one: "deleteOne client ns n c1 =
               (Some err, c1\<lparr>delete_requests := delete_requests c1 @ [(ns, n)]\<rparr>)"
    using assms(5) by (simp add: deleteOne_def Let_def)
  have "deleteItems client (before @ (ns, n) # later) (cluster s) =
          (Some err, c1\<lparr>delete_requests := delete_requests c1 @ [(ns, n)]\<rparr>)"
    by (simp add: deleteItems_append assms(4) one)
  then have run: "DeleteRoleBindings (spec_KubeClient client) batch (cluster s) =
          (Some err, c1\<lparr>delete_requests := delete_requests c1 @ [(ns, n)]\<rparr>)"
    by (simp add: spec_KubeClient_def deleteBatch_as_items assms(3))
  have answer: "deleteRoleBindings DecodeAndValidateJSONPayload h w r s =
           (Some (InternalServerError ''Failed to delete role bindings'' (Some err)), w,
            s\<lparr>cluster := c1\<lparr>delete_requests := delete_requests c1 @ [(ns, n)]\<rparr>,
              calls := calls s @ [Call_getProxyKubeClient, Call_DeleteRoleBindings batch]\<rparr>)"
    using assms(1,2) run by (simp add: deleteRoleBindings_def Let_def)
  from deleteItems_success [OF assms(4)] answer show ?thesis
    by simp
qed

theorem first_delete_failure_aborts_batch_witness:
  "deleteRoleBindings ex_decode ex_handler (ex_w :: unit ResponseWriter) ''stops'' ex_world =
     (Some (NewError 500 ''Failed to delete role bindings''
              (Some (StatusError 404 ''rolebinding not found''))),
      ex_w,
      \<lparr>cluster =
         \<lparr>bindings = [\<lparr>rb_name = ''admin-binding'', rb_namespace = ''team-b'',
                        rb_attributes = ''admin''\<rparr>],
          delete_requests = [(''team-a'', ''view-binding''), (''team-b'', ''edit-binding'')]\<rparr>,
       calls = [Call_getProxyKubeClient, Call_DeleteRoleBindings ex_stops],
       logs = []\<rparr>)
   \<and> items ex_client ex_stops =
       [(''team-a'', ''view-binding''), (''team-b'', ''edit-binding''),
        (''team-b'', ''admin-binding'')]"
proof -
  have p1: "ex_decode ''stops'' = Inr ex_stops"
    by (simp add: ex_decode_def)
  have p2: "getProxyKubeClient ex_handler ''stops'' = Inr (spec_KubeClient ex_client)"
    by (simp add: ex_handler_def)
  have p3: "items ex_client ex_stops =
              [(''team-a'', ''view-binding'')] @ (''team-b'', ''edit-binding'')
                # [(''team-b'', ''admin-binding'')]"
    by (simp add: items_def items_in_def names_of_def ex_client_def ex_stops_def)
  have p4: "deleteItems ex_client [(''team-a'', ''view-binding'')] (cluster ex_world) =
              (None, \<lparr>bindings = [\<lparr>rb_name = ''admin-binding'', rb_namespace = ''team-b'',
                                    rb_attributes = ''admin''\<rparr>],
                      delete_requests = [(''team-a'', ''view-binding'')]\<rparr>)"
    by (simp add: deleteOne_def ex_client_def ex_world_def ex_cluster_def identity_def Let_def)
  have p5: "delete_failure ex_client ''team-b'' ''edit-binding''
              (bindings \<lparr>bindings = [\<lparr>rb_name = ''admin-binding'', rb_namespace = ''team-b'',
                                       rb_attributes = ''admin''\<rparr>],
                         delete_requests = [(''team-a'', ''view-binding'')]\<rparr>) =
              Some (StatusError 404 ''rolebinding not found'')"
    by (simp add: ex_client_def identity_def)
  from first_delete_failure_aborts_batch
         [where DecodeAndValidateJSONPayload = ex_decode and h = ex_handler
            and w = "ex_w :: unit ResponseWriter" and s = ex_world, OF p1 p2 p3 p4 p5]
  show ?thesis
    using p3 by (simp add: InternalServerError_def StatusInternalServerError_def ex_world_def)
qed

subsection \<open>Listing across namespaces\<close>

text \<open>
  C5. A list call that obtains a client calls the listing operation once, with the
  empty string as namespace filter. With the client of the specification, whose
  retrieval succeeds, on a cluster whose bindings have distinct identities, the list
  written to the response is the union over all namespaces of the bindings of that
  namespace visible to the caller, and holds no binding twice. For a non-empty filter
  the same operation returns exactly the visible bindings of that one namespace.
\<close>

theorem list_all_namespaces_union:
  assumes "prepareKubeClient h r = Inr (spec_KubeClient client)"
    and "fetch_failure client (bindings (cluster s)) = None"
    and "distinct (map identity (bindings (cluster s)))"
  shows "getAllKubernetesRoleBindings h w r s =
           (None,
            w\<lparr>w_status := Some 200,
              w_body := Some (filter (authorized client) (bindings (cluster s)))\<rparr>,
            s\<lparr>calls := calls s @ [Call_prepareKubeClient, Call_GetRoleBindings '''']\<rparr>)
         \<and> set (filter (authorized client) (bindings (cluster s))) =
             (\<Union>ns. set (visible_in client (cluster s) ns))
         \<and> distinct (filter (authorized client) (bindings (cluster s)))
         \<and> distinct (map identity (filter (authorized client) (bindings (cluster s))))
         \<and> (\<forall>ns. ns \<noteq> '''' \<longrightarrow>
               listBindings client ns (cluster s) = Inr (visible_in client (cluster s) ns))"
proof -
  have listing: "GetRoleBindings (spec_KubeClient client) '''' (cluster s) =
                   Inr (filter (authorized client) (bindings (cluster s)))"
    using assms(2) by (simp add: spec_KubeClient_def listBindings_def)
  have answer: "getAllKubernetesRoleBindings h w r s =
           (None,
            w\<lparr>w_status := Some 200,
              w_body := Some (filter (authorized client) (bindings (cluster s)))\<rparr>,
            s\<lparr>calls := calls s @ [Call_prepareKubeClient, Call_GetRoleBindings '''']\<rparr>)"
    using assms(1) listing
    by (simp add: getAllKubernetesRoleBindings_def Let_def response_JSON_def StatusOK_def)
  have union: "set (filter (authorized client) (bindings (cluster s))) =
                 (\<Union>ns. set (visible_in client (cluster s) ns))"
    by (auto simp: visible_in_def)
  have no_dup_ids: "distinct (map identity (filter (authorized client) (bindings (cluster s))))"
    using assms(3) by (rule distinct_map_filter)
  then have no_dup: "distinct (filter (authorized client) (bindings (cluster s)))"
    by (simp add: distinct_map)
  have per_namespace: "\<forall>ns. ns \<noteq> '''' \<longrightarrow>
      listBindings client ns (cluster s) = Inr (visible_in client (cluster s) ns)"
    using assms(2) by (simp add: listBindings_def visible_in_def)
  from answer union no_dup no_dup_ids per_namespace show ?thesis
    by blast
qed

theorem list_all_namespaces_union_witness:
  "getAllKubernetesRoleBindings ex_handler_team_a ex_w ''list'' ex_world =
     (None,
      \<lparr>w_status = Some 200,
       w_body = Some [\<lparr>rb_name = ''view-binding'', rb_namespace = ''team-a'',
                        rb_attributes = ''view''\<rparr>]\<rparr>,
      \<lparr>cluster = ex_cluster,
       calls = [Call_prepareKubeClient, Call_GetRoleBindings ''''],
       logs = []\<rparr>)
   \<and> listBindings ex_client_team_a ''team-b'' (cluster ex_world) = Inr []"
proof -
  have p1: "prepareKubeClient ex_handler_team_a ''list'' = Inr (spec_KubeClient ex_client_team_a)"
    by (simp add: ex_handler_team_a_def)
  have p2: "fetch_failure ex_client_team_a (bindings (cluster ex_world)) = None"
    by (simp add: ex_client_team_a_def ex_client_def)
  have p3: "distinct (map identity (bindings (cluster ex_world)))"
    by (simp add: ex_world_def ex_cluster_def identity_def)
  from list_all_namespaces_union [where h = ex_handler_team_a and w = ex_w and s = ex_world,
         OF p1 p2 p3]
  have "getAllKubernetesRoleBindings ex_handler_team_a ex_w ''list'' ex_world =
          (None,
           ex_w\<lparr>w_status := Some 200,
             w_body := Some (filter (authorized ex_client_team_a) (bindings (cluster ex_world)))\<rparr>,
           ex_world\<lparr>calls := calls ex_world @ [Call_prepareKubeClient, Call_GetRoleBindings '''']\<rparr>)"
    and "listBindings ex_client_team_a ''team-b'' (cluster ex_world) =
          Inr (visible_in ex_client_team_a (cluster ex_world) ''team-b'')"
    by simp_all
  then show ?thesis
    by (simp add: visible_in_def ex_w_def ex_world_def ex_cluster_def ex_client_team_a_def)
qed

end
